theory Spec2Isabelle
  imports Main
begin

section \<open>Errors\<close>

text \<open>
  The exceptions that \<^verbatim>\<open>create_graph.py\<close> can raise, as values. \<open>InvalidOperation\<close>
  and \<open>DivisionByZero\<close> are the signals of the \<^verbatim>\<open>decimal\<close> module that the default
  context traps; both derive from \<^verbatim>\<open>ArithmeticError\<close>, not from \<^verbatim>\<open>ValueError\<close>.
\<close>

datatype error =
    FileNotFoundError string
  | ValueError string
  | TypeError
  | AttributeError string
  | KeyError string
  | OverflowError
  | InvalidOperation
  | DivisionByZero

definition bindE :: "error + 'a \<Rightarrow> ('a \<Rightarrow> error + 'b) \<Rightarrow> error + 'b" where
  "bindE m f = (case m of Inl e \<Rightarrow> Inl e | Inr v \<Rightarrow> f v)"

section \<open>Decimal numbers\<close>

text \<open>
  A finite \<^verbatim>\<open>decimal.Decimal\<close> is a sign, a coefficient and an exponent:
  \<open>Dec s c e\<close> is \<open>(-1)\<^sup>s \<sqdot> c \<sqdot> 10\<^sup>e\<close>, and \<open>Dec True 0 e\<close> is a negative zero.
  The program runs in the default context: 28 significant digits, arithmetic
  rounded half-even, \<open>InvalidOperation\<close> and \<open>DivisionByZero\<close> trapped.
  No operation of the program yields an infinity or a NaN of this type (the
  trapped signals raise instead), so the type has none. The exponent limits of
  the context (\<open>\<plusminus>999999\<close>) are not modelled: no numeral of fewer than 999000
  digits comes near them.
\<close>

datatype dec = Dec (dsign: bool) (dcoeff: nat) (dexp: int)

definition prec :: nat where
  "prec = 28"

fun ndigits :: "nat \<Rightarrow> nat" where
  "ndigits n = (if n < 10 then 1 else Suc (ndigits (n div 10)))"

declare ndigits.simps [simp del]

definition round_half_up :: "nat \<Rightarrow> nat \<Rightarrow> nat" where
  "round_half_up c k =
     (if 10 ^ k \<le> 2 * (c mod 10 ^ k) then c div 10 ^ k + 1 else c div 10 ^ k)"

definition round_half_even :: "nat \<Rightarrow> nat \<Rightarrow> nat" where
  "round_half_even c k =
     (if 10 ^ k < 2 * (c mod 10 ^ k) \<or> (10 ^ k = 2 * (c mod 10 ^ k) \<and> odd (c div 10 ^ k))
      then c div 10 ^ k + 1 else c div 10 ^ k)"

definition rescale :: "dec \<Rightarrow> int \<Rightarrow> dec" where
  "rescale d t =
     (if dcoeff d = 0 then Dec (dsign d) 0 t
      else if t \<le> dexp d then Dec (dsign d) (dcoeff d * 10 ^ nat (dexp d - t)) t
      else Dec (dsign d) (round_half_up (dcoeff d) (nat (t - dexp d))) t)"

definition quantize :: "dec \<Rightarrow> int \<Rightarrow> error + dec" where
  "quantize d t =
     (if dcoeff d = 0 then Inr (Dec (dsign d) 0 t)
      else if int prec < int (ndigits (dcoeff d)) + dexp d - t then Inl InvalidOperation
      else if prec < ndigits (dcoeff (rescale d t)) then Inl InvalidOperation
      else Inr (rescale d t))"

definition dec_fix :: "dec \<Rightarrow> dec" where
  "dec_fix d =
     (if dcoeff d = 0 \<or> ndigits (dcoeff d) \<le> prec then d
      else let k = ndigits (dcoeff d) - prec; q = round_half_even (dcoeff d) k
           in if prec < ndigits q then Dec (dsign d) (q div 10) (dexp d + int k + 1)
              else Dec (dsign d) q (dexp d + int k))"

definition dec_neg :: "dec \<Rightarrow> dec" where
  "dec_neg d = Dec (\<not> dsign d) (dcoeff d) (dexp d)"

definition signed :: "dec \<Rightarrow> int \<Rightarrow> int" where
  "signed d e = (if dsign d then - 1 else 1) * int (dcoeff d) * 10 ^ nat (dexp d - e)"

definition dec_add :: "dec \<Rightarrow> dec \<Rightarrow> dec" where
  "dec_add a b =
     (let e = min (dexp a) (dexp b); s = signed a e + signed b e
      in if dcoeff a = 0 \<and> dcoeff b = 0 then Dec (dsign a \<and> dsign b) 0 e
         else if s = 0 then Dec False 0 e
         else dec_fix (Dec (s < 0) (nat \<bar>s\<bar>) e))"

definition dec_sub :: "dec \<Rightarrow> dec \<Rightarrow> dec" where
  "dec_sub a b = dec_add a (dec_neg b)"

definition dec_mul :: "dec \<Rightarrow> dec \<Rightarrow> dec" where
  "dec_mul a b = dec_fix (Dec (dsign a \<noteq> dsign b) (dcoeff a * dcoeff b) (dexp a + dexp b))"

text \<open>
  The loop of the division that removes trailing zeros from an exact quotient
  until the exponent reaches the ideal one.
\<close>

function strip_zeros :: "nat \<Rightarrow> int \<Rightarrow> int \<Rightarrow> nat \<times> int" where
  "strip_zeros coeff e ideal_exp =
     (if e < ideal_exp \<and> coeff mod 10 = 0
      then strip_zeros (coeff div 10) (e + 1) ideal_exp else (coeff, e))"
  by pat_completeness auto
termination
  by (relation "measure (\<lambda>(coeff, e, ideal_exp). nat (ideal_exp - e))") auto

declare strip_zeros.simps [simp del]

definition dec_truediv :: "dec \<Rightarrow> dec \<Rightarrow> error + dec" where
  "dec_truediv a b =
     (if dcoeff b = 0 then Inl (if dcoeff a = 0 then InvalidOperation else DivisionByZero)
      else if dcoeff a = 0 then Inr (dec_fix (Dec (dsign a \<noteq> dsign b) 0 (dexp a - dexp b)))
      else
        let shift = int (ndigits (dcoeff b)) - int (ndigits (dcoeff a)) + int prec + 1;
            e = dexp a - dexp b - shift;
            n = (if 0 \<le> shift then dcoeff a * 10 ^ nat shift else dcoeff a);
            m = (if 0 \<le> shift then dcoeff b else dcoeff b * 10 ^ nat (- shift));
            q = n div m
        in if n mod m \<noteq> 0
           then Inr (dec_fix (Dec (dsign a \<noteq> dsign b) (if q mod 5 = 0 then q + 1 else q) e))
           else case strip_zeros q e (dexp a - dexp b) of
                  (q', e') \<Rightarrow> Inr (dec_fix (Dec (dsign a \<noteq> dsign b) q' e')))"

definition dec_lt_zero :: "dec \<Rightarrow> bool" where
  "dec_lt_zero d \<longleftrightarrow> dsign d \<and> dcoeff d \<noteq> 0"

definition int_of_dec :: "dec \<Rightarrow> int" where
  "int_of_dec d =
     (let m = (if 0 \<le> dexp d then dcoeff d * 10 ^ nat (dexp d)
               else dcoeff d div 10 ^ nat (- dexp d))
      in if dsign d then - int m else int m)"

definition dec_of_int :: "int \<Rightarrow> dec" where
  "dec_of_int n = Dec (n < 0) (nat \<bar>n\<bar>) 0"

section \<open>Binary floating point\<close>

text \<open>
  A Python \<^verbatim>\<open>float\<close> is an IEEE 754 double: \<open>Flt s m e\<close> is
  \<open>(-1)\<^sup>s \<sqdot> m \<sqdot> 2\<^sup>e\<close> with \<open>m\<close> odd (or \<open>m = 0\<close> and \<open>e = 0\<close>), \<open>FInf s\<close> an
  infinity and \<open>FNaN\<close> a NaN. \<open>round_float s num den\<close> rounds the rational
  \<open>num / den\<close> to the nearest double, ties to even, with gradual underflow:
  \<open>float_exponent\<close> is the exponent of the unit in the last place of the
  result (53 significant bits, at least \<open>-1074\<close>), \<open>round_ratio\<close> the numerator
  over that unit rounded to an integer, and \<open>normal\<close> removes the factors of two.
\<close>

datatype pyfloat = Flt bool nat int | FInf bool | FNaN

fun bitlen :: "nat \<Rightarrow> nat" where
  "bitlen n = (if n = 0 then 0 else Suc (bitlen (n div 2)))"

declare bitlen.simps [simp del]

fun strip_twos :: "nat \<Rightarrow> int \<Rightarrow> nat \<times> int" where
  "strip_twos m e = (if m \<noteq> 0 \<and> even m then strip_twos (m div 2) (e + 1) else (m, e))"

declare strip_twos.simps [simp del]

definition scaled_ge :: "nat \<Rightarrow> nat \<Rightarrow> int \<Rightarrow> bool" where
  "scaled_ge num den e0 =
     (if 0 \<le> e0 then 2 ^ 53 * den * 2 ^ nat e0 \<le> num
      else 2 ^ 53 * den \<le> num * 2 ^ nat (- e0))"

definition float_exponent :: "nat \<Rightarrow> nat \<Rightarrow> int" where
  "float_exponent num den =
     (let e0 = int (bitlen num) - int (bitlen den) - 53
      in max (if scaled_ge num den e0 then e0 + 1 else e0) (- 1074))"

definition round_ratio :: "nat \<Rightarrow> nat \<Rightarrow> nat" where
  "round_ratio n d =
     (if d < 2 * (n mod d) \<or> (d = 2 * (n mod d) \<and> odd (n div d)) then n div d + 1
      else n div d)"

definition normal :: "bool \<Rightarrow> nat \<Rightarrow> int \<Rightarrow> pyfloat" where
  "normal s m e = (case strip_twos m e of (m', e') \<Rightarrow> Flt s m' (if m' = 0 then 0 else e'))"

definition round_float :: "bool \<Rightarrow> nat \<Rightarrow> nat \<Rightarrow> pyfloat" where
  "round_float s num den =
     (if num = 0 then Flt s 0 0
      else
        let e = float_exponent num den;
            m = round_ratio (if 0 \<le> e then num else num * 2 ^ nat (- e))
                  (if 0 \<le> e then den * 2 ^ nat e else den)
        in if 1024 < int (bitlen m) + e then FInf s else normal s m e)"

definition float_of_int :: "int \<Rightarrow> error + pyfloat" where
  "float_of_int n =
     (case round_float (n < 0) (nat \<bar>n\<bar>) 1 of FInf s \<Rightarrow> Inl OverflowError | f \<Rightarrow> Inr f)"

definition int_truediv :: "int \<Rightarrow> int \<Rightarrow> error + pyfloat" where
  "int_truediv a b =
     (case round_float ((a < 0) \<noteq> (b < 0)) (nat \<bar>a\<bar>) (nat \<bar>b\<bar>) of
        FInf s \<Rightarrow> Inl OverflowError | f \<Rightarrow> Inr f)"

fun fmul :: "pyfloat \<Rightarrow> pyfloat \<Rightarrow> pyfloat" where
  "fmul (Flt s m e) (Flt t n f) =
     round_float (s \<noteq> t) (m * n * 2 ^ nat (e + f)) (2 ^ nat (- (e + f)))"
| "fmul (Flt s m e) (FInf t) = (if m = 0 then FNaN else FInf (s \<noteq> t))"
| "fmul (FInf s) (Flt t n f) = (if n = 0 then FNaN else FInf (s \<noteq> t))"
| "fmul (FInf s) (FInf t) = FInf (s \<noteq> t)"
| "fmul FNaN _ = FNaN"
| "fmul _ FNaN = FNaN"

fun fadd :: "pyfloat \<Rightarrow> pyfloat \<Rightarrow> pyfloat" where
  "fadd (Flt s m e) (Flt t n f) =
     (let g = min e f;
          z = (if s then - 1 else 1) * int m * 2 ^ nat (e - g)
            + (if t then - 1 else 1) * int n * 2 ^ nat (f - g)
      in if z = 0 then Flt (s \<and> t \<and> m = 0 \<and> n = 0) 0 0
         else round_float (z < 0) (nat \<bar>z\<bar> * 2 ^ nat g) (2 ^ nat (- g)))"
| "fadd (Flt s m e) (FInf t) = FInf t"
| "fadd (FInf s) (Flt t n f) = FInf s"
| "fadd (FInf s) (FInf t) = (if s = t then FInf s else FNaN)"
| "fadd FNaN _ = FNaN"
| "fadd _ FNaN = FNaN"

fun fneg :: "pyfloat \<Rightarrow> pyfloat" where
  "fneg (Flt s m e) = Flt (\<not> s) m e"
| "fneg (FInf s) = FInf (\<not> s)"
| "fneg FNaN = FNaN"

definition fdiv_int :: "pyfloat \<Rightarrow> nat \<Rightarrow> pyfloat" where
  "fdiv_int x k =
     (case x of
        Flt s m e \<Rightarrow> round_float s (m * 2 ^ nat e) (k * 2 ^ nat (- e))
      | FInf s \<Rightarrow> FInf s
      | FNaN \<Rightarrow> FNaN)"

definition dec_of_float :: "bool \<Rightarrow> nat \<Rightarrow> int \<Rightarrow> dec" where
  "dec_of_float s m e =
     (if 0 \<le> e then Dec s (m * 2 ^ nat e) 0 else Dec s (m * 5 ^ nat (- e)) e)"

section \<open>Python values and operators\<close>

text \<open>
  The values the program handles: \<^verbatim>\<open>int\<close>, \<^verbatim>\<open>float\<close>, \<^verbatim>\<open>Decimal\<close> and \<^verbatim>\<open>str\<close>.
  The operators follow the dispatch of the interpreter: an \<^verbatim>\<open>int\<close> is promoted
  to the type of the other operand, and \<^verbatim>\<open>Decimal\<close> refuses to mix with
  \<^verbatim>\<open>float\<close> in arithmetic (\<^verbatim>\<open>TypeError\<close>).
\<close>

datatype pyval = PInt int | PFloat pyfloat | PDec dec | PStr string

definition with_float :: "int \<Rightarrow> (pyfloat \<Rightarrow> pyfloat) \<Rightarrow> error + pyval" where
  "with_float n f = bindE (float_of_int n) (\<lambda>x. Inr (PFloat (f x)))"

fun py_mul :: "pyval \<Rightarrow> pyval \<Rightarrow> error + pyval" where
  "py_mul (PInt a) (PInt b) = Inr (PInt (a * b))"
| "py_mul (PInt a) (PFloat y) = with_float a (\<lambda>x. fmul x y)"
| "py_mul (PFloat x) (PInt b) = with_float b (\<lambda>y. fmul x y)"
| "py_mul (PFloat x) (PFloat y) = Inr (PFloat (fmul x y))"
| "py_mul (PInt a) (PDec y) = Inr (PDec (dec_mul (dec_of_int a) y))"
| "py_mul (PDec x) (PInt b) = Inr (PDec (dec_mul x (dec_of_int b)))"
| "py_mul (PDec x) (PDec y) = Inr (PDec (dec_mul x y))"
| "py_mul (PStr s) (PInt b) = Inr (PStr (concat (replicate (nat b) s)))"
| "py_mul (PInt a) (PStr s) = Inr (PStr (concat (replicate (nat a) s)))"
| "py_mul _ _ = Inl TypeError"

fun py_add :: "pyval \<Rightarrow> pyval \<Rightarrow> error + pyval" where
  "py_add (PInt a) (PInt b) = Inr (PInt (a + b))"
| "py_add (PInt a) (PFloat y) = with_float a (\<lambda>x. fadd x y)"
| "py_add (PFloat x) (PInt b) = with_float b (\<lambda>y. fadd x y)"
| "py_add (PFloat x) (PFloat y) = Inr (PFloat (fadd x y))"
| "py_add (PInt a) (PDec y) = Inr (PDec (dec_add (dec_of_int a) y))"
| "py_add (PDec x) (PInt b) = Inr (PDec (dec_add x (dec_of_int b)))"
| "py_add (PDec x) (PDec y) = Inr (PDec (dec_add x y))"
| "py_add (PStr s) (PStr t) = Inr (PStr (s @ t))"
| "py_add _ _ = Inl TypeError"

fun py_sub :: "pyval \<Rightarrow> pyval \<Rightarrow> error + pyval" where
  "py_sub (PInt a) (PInt b) = Inr (PInt (a - b))"
| "py_sub (PInt a) (PFloat y) = with_float a (\<lambda>x. fadd x (fneg y))"
| "py_sub (PFloat x) (PInt b) = with_float b (\<lambda>y. fadd x (fneg y))"
| "py_sub (PFloat x) (PFloat y) = Inr (PFloat (fadd x (fneg y)))"
| "py_sub (PInt a) (PDec y) = Inr (PDec (dec_sub (dec_of_int a) y))"
| "py_sub (PDec x) (PInt b) = Inr (PDec (dec_sub x (dec_of_int b)))"
| "py_sub (PDec x) (PDec y) = Inr (PDec (dec_sub x y))"
| "py_sub _ _ = Inl TypeError"

text \<open>\<^verbatim>\<open>value / 100\<close>: true division by the \<^verbatim>\<open>int\<close> 100.\<close>

fun div_100 :: "pyval \<Rightarrow> error + pyval" where
  "div_100 (PInt a) = bindE (int_truediv a 100) (\<lambda>x. Inr (PFloat x))"
| "div_100 (PFloat x) = Inr (PFloat (fdiv_int x 100))"
| "div_100 (PDec x) = bindE (dec_truediv x (dec_of_int 100)) (\<lambda>q. Inr (PDec q))"
| "div_100 (PStr s) = Inl TypeError"

text \<open>\<^verbatim>\<open>range(n)\<close> accepts an \<^verbatim>\<open>int\<close> only; a negative count gives the empty range.\<close>

fun py_range :: "pyval \<Rightarrow> error + nat list" where
  "py_range (PInt n) = Inr [0..<nat n]"
| "py_range _ = Inl TypeError"

text \<open>\<^verbatim>\<open>pd.isna\<close> and \<^verbatim>\<open>pd.notna\<close> on a scalar: only a NaN is missing.\<close>

definition isna :: "pyval \<Rightarrow> bool" where
  "isna v \<longleftrightarrow> v = PFloat FNaN"

section \<open>Parsing numerals\<close>

text \<open>
  \<^verbatim>\<open>int(s)\<close> and \<^verbatim>\<open>Decimal(s)\<close> on ASCII text. Both strip surrounding white
  space. \<^verbatim>\<open>int\<close> accepts a sign and digits, with single underscores between
  digits, and raises \<^verbatim>\<open>ValueError\<close> otherwise. \<^verbatim>\<open>Decimal\<close> removes every
  underscore and accepts a sign, digits with an optional point (at least one
  digit) and an optional exponent, and signals \<open>InvalidOperation\<close> otherwise.
  The spellings of infinity and NaN that \<^verbatim>\<open>Decimal\<close> also accepts contain no
  decimal point, and the program passes it only text that has one.
\<close>

definition is_space :: "char \<Rightarrow> bool" where
  "is_space c \<longleftrightarrow> c = CHR '' '' \<or> (9 \<le> (of_char c :: nat) \<and> (of_char c :: nat) \<le> 13)
     \<or> (28 \<le> (of_char c :: nat) \<and> (of_char c :: nat) \<le> 31)"

definition strip :: "string \<Rightarrow> string" where
  "strip s = rev (dropWhile is_space (rev (dropWhile is_space s)))"

definition is_digit :: "char \<Rightarrow> bool" where
  "is_digit c \<longleftrightarrow> 48 \<le> (of_char c :: nat) \<and> (of_char c :: nat) \<le> 57"

definition digits_val :: "string \<Rightarrow> nat" where
  "digits_val s = foldl (\<lambda>a c. 10 * a + (of_char c - 48)) 0 s"

definition split_sign :: "string \<Rightarrow> bool \<times> string" where
  "split_sign s =
     (case s of
        [] \<Rightarrow> (False, [])
      | c # r \<Rightarrow> if c = CHR ''-'' then (True, r) else if c = CHR ''+'' then (False, r)
                 else (False, s))"

fun int_body :: "string \<Rightarrow> bool" where
  "int_body [] = False"
| "int_body [c] = is_digit c"
| "int_body (c # d # cs) =
     (is_digit c \<and> (if d = CHR ''_'' then int_body cs else int_body (d # cs)))"

definition int_of_str :: "string \<Rightarrow> error + int" where
  "int_of_str s =
     (case split_sign (strip s) of
        (neg, body) \<Rightarrow>
          if int_body body
          then let n = int (digits_val (filter (\<lambda>c. c \<noteq> CHR ''_'') body))
               in Inr (if neg then - n else n)
          else Inl (ValueError ''invalid literal for int() with base 10''))"

definition exponent_part :: "string \<Rightarrow> int option" where
  "exponent_part s =
     (case s of
        [] \<Rightarrow> Some 0
      | c # r \<Rightarrow>
          if c = CHR ''e'' \<or> c = CHR ''E''
          then (case split_sign r of
                  (neg, ds) \<Rightarrow>
                    if ds \<noteq> [] \<and> list_all is_digit ds
                    then Some (if neg then - int (digits_val ds) else int (digits_val ds))
                    else None)
          else None)"

definition Decimal_of_str :: "string \<Rightarrow> error + dec" where
  "Decimal_of_str s =
     (case split_sign (filter (\<lambda>c. c \<noteq> CHR ''_'') (strip s)) of
        (neg, u) \<Rightarrow>
          let ip = takeWhile is_digit u;
              r = dropWhile is_digit u;
              pt = (r \<noteq> [] \<and> hd r = CHR ''.'');
              fp = (if pt then takeWhile is_digit (tl r) else []);
              rest = (if pt then dropWhile is_digit (tl r) else r)
          in if ip = [] \<and> fp = [] then Inl InvalidOperation
             else case exponent_part rest of
                    None \<Rightarrow> Inl InvalidOperation
                  | Some x \<Rightarrow> Inr (Dec neg (digits_val (ip @ fp)) (x - int (length fp))))"

text \<open>
  The constructor \<^verbatim>\<open>Decimal(value)\<close>: exact for every argument. Both call sites
  test \<^verbatim>\<open>pd.isna\<close> first and quantize the result at once; an infinite float
  converts to an infinite \<^verbatim>\<open>Decimal\<close>, on which \<^verbatim>\<open>quantize\<close> signals
  \<open>InvalidOperation\<close>, so the model raises it here.
\<close>

fun Decimal :: "pyval \<Rightarrow> error + dec" where
  "Decimal (PInt n) = Inr (dec_of_int n)"
| "Decimal (PDec d) = Inr d"
| "Decimal (PStr s) = Decimal_of_str s"
| "Decimal (PFloat (Flt s m e)) = Inr (dec_of_float s m e)"
| "Decimal (PFloat _) = Inl InvalidOperation"

section \<open>The rounding helper\<close>

text \<open>
  \<^verbatim>\<open>to_decimal_round(value, decimal_places=20)\<close>: a missing value is returned as
  it is; anything else is converted and quantized, rounding half up, to
  \<open>decimal_places\<close> fractional digits.
\<close>

definition to_decimal_round :: "pyval \<Rightarrow> nat \<Rightarrow> error + pyval" where
  "to_decimal_round v decimal_places =
     (if isna v then Inr v
      else bindE (Decimal v) (\<lambda>d.
           bindE (quantize d (- int decimal_places)) (\<lambda>q. Inr (PDec q))))"

section \<open>Validating the configuration\<close>

text \<open>
  The configuration file as \<^verbatim>\<open>configparser\<close> presents it: \<open>None\<close> when
  \<^verbatim>\<open>graph_values.ini\<close> does not exist, otherwise its sections in order, each a
  name with its key/value pairs (keys in lower case, values stripped).
  Logging is left out: it changes no result.
\<close>

type_synonym section_items = "(string \<times> string) list"
type_synonym config = "(string \<times> section_items) list"

definition required_keys :: "string list" where
  "required_keys = [''name'', ''age'', ''maximum_age'', ''pension_fund_value'',
     ''annual_income'', ''pct_growth_above_inflation'', ''pct_charges_above_inflation'']"

fun check_keys :: "string \<Rightarrow> section_items \<Rightarrow> string list \<Rightarrow> error + unit" where
  "check_keys section items [] = Inr ()"
| "check_keys section items (key # keys) =
     (if key \<notin> set (map fst items)
      then Inl (ValueError (key @ '' missing from '' @ section))
      else check_keys section items keys)"

fun check_sections :: "config \<Rightarrow> string list \<Rightarrow> error + unit" where
  "check_sections cfg [] = Inr ()"
| "check_sections cfg (section # sections) =
     (case map_of cfg section of
        None \<Rightarrow> Inl (ValueError (''Missing section: '' @ section))
      | Some items \<Rightarrow>
          bindE (check_keys section items required_keys) (\<lambda>_. check_sections cfg sections))"

definition validate_config :: "config option \<Rightarrow> error + config" where
  "validate_config ini =
     (case ini of
        None \<Rightarrow> Inl (FileNotFoundError ''Missing file'')
      | Some cfg \<Rightarrow> bindE (check_sections cfg [''Values'']) (\<lambda>_. Inr cfg))"

section \<open>The object\<close>

text \<open>
  An \<^verbatim>\<open>AMR_Graph\<close> is its attribute dictionary. \<^verbatim>\<open>__init__\<close> converts every
  entry of the \<^verbatim>\<open>Values\<close> section and stores it under its key, then divides the
  two percentages by 100. Only \<^verbatim>\<open>ValueError\<close> is caught by the conversion.
  The attribute \<^verbatim>\<open>script_dir\<close> only names the directory of the CSV file and is
  left out.
\<close>

type_synonym AMR_Graph = "string \<rightharpoonup> pyval"

definition getattr :: "AMR_Graph \<Rightarrow> string \<Rightarrow> error + pyval" where
  "getattr self key = (case self key of None \<Rightarrow> Inl (AttributeError key) | Some v \<Rightarrow> Inr v)"

definition except_ValueError :: "error + pyval \<Rightarrow> pyval \<Rightarrow> error + pyval" where
  "except_ValueError body fallback =
     (case body of
        Inl (ValueError m) \<Rightarrow> Inr fallback
      | Inl e \<Rightarrow> Inl e
      | Inr v \<Rightarrow> Inr v)"

definition convert :: "string \<Rightarrow> error + pyval" where
  "convert raw =
     (let v = filter (\<lambda>c. c \<noteq> CHR '','') raw
      in except_ValueError
           (if CHR ''.'' \<in> set v then to_decimal_round (PStr v) 20
            else bindE (int_of_str v) (\<lambda>n. Inr (PInt n)))
           (PStr v))"

fun set_attributes :: "section_items \<Rightarrow> AMR_Graph \<Rightarrow> error + AMR_Graph" where
  "set_attributes [] self = Inr self"
| "set_attributes ((key, raw) # items) self =
     bindE (convert raw) (\<lambda>v. set_attributes items (self(key \<mapsto> v)))"

definition percent :: "AMR_Graph \<Rightarrow> string \<Rightarrow> error + AMR_Graph" where
  "percent self key =
     bindE (getattr self key) (\<lambda>v. bindE (div_100 v) (\<lambda>q. Inr (self(key \<mapsto> q))))"

definition init :: "section_items \<Rightarrow> error + AMR_Graph" where
  "init items =
     bindE (set_attributes items Map.empty) (\<lambda>self.
     bindE (percent self ''pct_growth_above_inflation'') (\<lambda>self.
     percent self ''pct_charges_above_inflation''))"

section \<open>The projection\<close>

text \<open>
  A data frame is the list of its rows; the column \<^verbatim>\<open>pension_fund_value\<close> is
  the value of the fund at the start of the year.
\<close>

record row =
  Age :: pyval
  pension_fund_value :: pyval
  projected_growth :: pyval
  charges :: pyval
  ending_fund_value :: pyval

definition first_row :: "AMR_Graph \<Rightarrow> error + row" where
  "first_row self =
     bindE (getattr self ''pension_fund_value'') (\<lambda>fund.
     bindE (getattr self ''pct_growth_above_inflation'') (\<lambda>growth.
     bindE (py_mul fund growth) (\<lambda>g.
     bindE (to_decimal_round g 20) (\<lambda>initial_growth_value.
     bindE (getattr self ''pct_charges_above_inflation'') (\<lambda>charge.
     bindE (py_mul fund charge) (\<lambda>c.
     bindE (to_decimal_round c 20) (\<lambda>initial_charge_value.
     bindE (getattr self ''age'') (\<lambda>age.
     bindE (to_decimal_round fund 20) (\<lambda>start.
     bindE (py_add fund initial_growth_value) (\<lambda>s1.
     bindE (getattr self ''annual_income'') (\<lambda>income.
     bindE (py_sub s1 income) (\<lambda>s2.
     bindE (py_sub s2 initial_charge_value) (\<lambda>ending.
     Inr \<lparr>Age = age, pension_fund_value = start,
          projected_growth = initial_growth_value, charges = initial_charge_value,
          ending_fund_value = ending\<rparr>)))))))))))))"

definition new_row :: "AMR_Graph \<Rightarrow> row list \<Rightarrow> nat \<Rightarrow> error + row" where
  "new_row self df i =
     (let previous_end_fund_value = ending_fund_value (last df) in
      bindE (getattr self ''pct_growth_above_inflation'') (\<lambda>growth.
      bindE (py_mul previous_end_fund_value growth) (\<lambda>g.
      bindE (to_decimal_round g 20) (\<lambda>projected_growth.
      bindE (getattr self ''pct_charges_above_inflation'') (\<lambda>charge.
      bindE (py_mul previous_end_fund_value charge) (\<lambda>c.
      bindE (to_decimal_round c 20) (\<lambda>projected_charge.
      bindE (getattr self ''age'') (\<lambda>age.
      bindE (py_add age (PInt (int i))) (\<lambda>a1.
      bindE (py_add a1 (PInt 1)) (\<lambda>a2.
      bindE (py_add previous_end_fund_value projected_growth) (\<lambda>s1.
      bindE (getattr self ''annual_income'') (\<lambda>income.
      bindE (py_sub s1 income) (\<lambda>s2.
      bindE (py_sub s2 projected_charge) (\<lambda>ending.
      Inr \<lparr>Age = a2, pension_fund_value = previous_end_fund_value,
           projected_growth = projected_growth, charges = projected_charge,
           ending_fund_value = ending\<rparr>))))))))))))))"

fun add_rows :: "AMR_Graph \<Rightarrow> nat list \<Rightarrow> row list \<Rightarrow> error + row list" where
  "add_rows self [] df = Inr df"
| "add_rows self (i # is) df = bindE (new_row self df i) (\<lambda>r. add_rows self is (df @ [r]))"

text \<open>Lines 117 to 155: the frame at full precision, before any rounding.\<close>

definition series :: "AMR_Graph \<Rightarrow> error + row list" where
  "series self =
     bindE (first_row self) (\<lambda>r.
     bindE (getattr self ''maximum_age'') (\<lambda>maximum_age.
     bindE (getattr self ''age'') (\<lambda>age.
     bindE (py_sub maximum_age age) (\<lambda>no_rows.
     bindE (py_range no_rows) (\<lambda>is. add_rows self is [r])))))"

text \<open>
  Line 157 applies the same function to every cell: a value that is not missing
  is converted and quantized to two fractional digits, rounding half up. Every
  exception this can raise is \<open>InvalidOperation\<close>, so the order in which
  \<^verbatim>\<open>apply\<close> visits the cells does not show in the result. Line 161 converts the
  ages back with \<^verbatim>\<open>int\<close>.
\<close>

fun mapE :: "('a \<Rightarrow> error + 'b) \<Rightarrow> 'a list \<Rightarrow> error + 'b list" where
  "mapE f [] = Inr []"
| "mapE f (x # xs) = bindE (f x) (\<lambda>y. bindE (mapE f xs) (\<lambda>ys. Inr (y # ys)))"

definition round_cell :: "pyval \<Rightarrow> error + pyval" where
  "round_cell v =
     (if \<not> isna v
      then bindE (Decimal v) (\<lambda>d. bindE (quantize d (- 2)) (\<lambda>q. Inr (PDec q)))
      else Inr v)"

definition round_row :: "row \<Rightarrow> error + row" where
  "round_row r =
     bindE (round_cell (Age r)) (\<lambda>a.
     bindE (round_cell (pension_fund_value r)) (\<lambda>s.
     bindE (round_cell (projected_growth r)) (\<lambda>g.
     bindE (round_cell (charges r)) (\<lambda>c.
     bindE (round_cell (ending_fund_value r)) (\<lambda>e.
     Inr \<lparr>Age = a, pension_fund_value = s, projected_growth = g, charges = c,
          ending_fund_value = e\<rparr>)))))"

fun py_int :: "pyval \<Rightarrow> error + pyval" where
  "py_int (PInt n) = Inr (PInt n)"
| "py_int (PDec d) = Inr (PInt (int_of_dec d))"
| "py_int (PStr s) = bindE (int_of_str s) (\<lambda>n. Inr (PInt n))"
| "py_int (PFloat (Flt s m e)) =
     (let n = (if 0 \<le> e then m * 2 ^ nat e else m div 2 ^ nat (- e))
      in Inr (PInt (if s then - int n else int n)))"
| "py_int (PFloat (FInf s)) = Inl OverflowError"
| "py_int (PFloat FNaN) = Inl (ValueError ''cannot convert float NaN to integer'')"

definition age_to_int :: "row \<Rightarrow> error + row" where
  "age_to_int r = bindE (py_int (Age r)) (\<lambda>a. Inr (r\<lparr>Age := a\<rparr>))"

definition export_view :: "row list \<Rightarrow> error + row list" where
  "export_view df = bindE (mapE round_row df) (mapE age_to_int)"

text \<open>
  Line 170: the comparison \<^verbatim>\<open>< 0\<close> is evaluated for the whole column, then every
  selected cell is overwritten with the \<^verbatim>\<open>int\<close> 0.
\<close>

fun py_lt_zero :: "pyval \<Rightarrow> error + bool" where
  "py_lt_zero (PInt n) = Inr (n < 0)"
| "py_lt_zero (PDec d) = Inr (dec_lt_zero d)"
| "py_lt_zero (PFloat (Flt s m e)) = Inr (s \<and> m \<noteq> 0)"
| "py_lt_zero (PFloat (FInf s)) = Inr s"
| "py_lt_zero (PFloat FNaN) = Inr False"
| "py_lt_zero (PStr s) = Inl TypeError"

definition clamp_row :: "row \<Rightarrow> error + row" where
  "clamp_row r =
     bindE (py_lt_zero (ending_fund_value r)) (\<lambda>neg.
     Inr (if neg then r\<lparr>ending_fund_value := PInt 0\<rparr> else r))"

definition display_view :: "row list \<Rightarrow> error + row list" where
  "display_view df = mapE clamp_row df"

text \<open>
  The files written, in order: the CSV file holds the export view and the chart
  draws the display view; both are named after the attribute \<^verbatim>\<open>name\<close>.
  \<open>create_dataframe\<close> returns the files it has written together with its
  result, since it writes the CSV file before it clamps.
\<close>

datatype written = CsvFile pyval "row list" | PngFile pyval "row list"

definition create_dataframe :: "AMR_Graph \<Rightarrow> written list \<times> (error + row list)" where
  "create_dataframe self =
     (case bindE (series self) (\<lambda>df.
           bindE (export_view df) (\<lambda>df.
           bindE (getattr self ''name'') (\<lambda>name. Inr (name, df)))) of
        Inl e \<Rightarrow> ([], Inl e)
      | Inr (name, df) \<Rightarrow> ([CsvFile name df], display_view df))"

definition create_graph :: "AMR_Graph \<Rightarrow> row list \<Rightarrow> error + written" where
  "create_graph self df = bindE (getattr self ''name'') (\<lambda>name. Inr (PngFile name df))"

definition main :: "AMR_Graph \<Rightarrow> written list \<times> error option" where
  "main self =
     (case create_dataframe self of
        (files, Inl e) \<Rightarrow> (files, Some e)
      | (files, Inr df) \<Rightarrow>
          (case create_graph self df of
             Inl e \<Rightarrow> (files, Some e)
           | Inr png \<Rightarrow> (files @ [png], None)))"

text \<open>
  The script: validate the configuration, build the object, run it. The result
  is the list of files written and the exception that ended the run, if any.
\<close>

definition script :: "config option \<Rightarrow> written list \<times> error option" where
  "script ini =
     (case bindE (validate_config ini) (\<lambda>config.
           case map_of config ''Values'' of
             None \<Rightarrow> Inl (KeyError ''Values'')
           | Some items \<Rightarrow> init items) of
        Inl e \<Rightarrow> ([], Some e)
      | Inr obj \<Rightarrow> main obj)"

section \<open>Basic facts\<close>

lemma bindE_simps [simp]:
  "bindE (Inl e) f = Inl e"
  "bindE (Inr v) f = f v"
  by (simp_all add: bindE_def)

lemma bindE_eq_Inr:
  "bindE m f = Inr y \<longleftrightarrow> (\<exists>v. m = Inr v \<and> f v = Inr y)"
  by (cases m) simp_all

section \<open>Validation\<close>

lemma check_keys_missing:
  "\<not> set keys \<subseteq> fst ` set items \<Longrightarrow>
   \<exists>key\<in>set keys. key \<notin> fst ` set items \<and>
     check_keys section items keys = Inl (ValueError (key @ '' missing from '' @ section))"
  by (induction keys) auto

text \<open>
  Claim C8. When the configuration file has no \<^verbatim>\<open>Values\<close> section, or the section
  lacks one of the seven required keys, the run ends in a \<^verbatim>\<open>ValueError\<close> whose
  message names the missing section, respectively a missing required key; the
  error is raised by the validation, before the object is built, and no file is
  written.
\<close>

theorem missing_section_or_key_fails:
  assumes "map_of cfg ''Values'' = None \<or>
    (\<exists>items. map_of cfg ''Values'' = Some items \<and> \<not> set required_keys \<subseteq> fst ` set items)"
  shows "\<exists>m. validate_config (Some cfg) = Inl (ValueError m) \<and>
    script (Some cfg) = ([], Some (ValueError m)) \<and>
    (case map_of cfg ''Values'' of
       None \<Rightarrow> m = ''Missing section: Values''
     | Some items \<Rightarrow>
         \<exists>key\<in>set required_keys. key \<notin> fst ` set items \<and> m = key @ '' missing from Values'')"
proof (cases "map_of cfg ''Values''")
  case None
  then show ?thesis
    by (simp add: script_def validate_config_def)
next
  case (Some items)
  with assms have "\<not> set required_keys \<subseteq> fst ` set items"
    by simp
  from check_keys_missing [OF this, of "''Values''"]
  obtain key where key: "key \<in> set required_keys" "key \<notin> fst ` set items"
    "check_keys ''Values'' items required_keys = Inl (ValueError (key @ '' missing from Values''))"
    by auto
  have "validate_config (Some cfg) = Inl (ValueError (key @ '' missing from Values''))"
    using Some key(3) by (simp add: validate_config_def)
  then show ?thesis
    using Some key(1,2) by (auto simp add: script_def)
qed

theorem missing_section_or_key_fails_witness:
  "\<exists>m. script (Some [(''Values'', [(''name'', ''Ann''), (''age'', ''60'')])])
     = ([], Some (ValueError m))"
proof -
  have h: "map_of [(''Values'', [(''name'', ''Ann''), (''age'', ''60'')])] ''Values'' = None \<or>
    (\<exists>items. map_of [(''Values'', [(''name'', ''Ann''), (''age'', ''60'')])] ''Values'' = Some items
       \<and> \<not> set required_keys \<subseteq> fst ` set items)"
    by (simp add: required_keys_def)
  from missing_section_or_key_fails [OF h] show ?thesis
    by blast
qed

end
